theory Spec2Isabelle
  imports Complex_Main "HOL-Library.Sublist"
begin

section \<open>Strings\<close>

text \<open>
  Python strings are modelled as \<open>string\<close> (a list of 8-bit characters). The model is
  exact for ASCII text; \<open>str.lower\<close> acts on the letters A to Z only, which is what
  Python does on ASCII input. A character outside ASCII appears as its UTF-8 bytes.
\<close>

definition lower_char :: "char \<Rightarrow> char" where
  "lower_char c =
     (case map_of (zip ''ABCDEFGHIJKLMNOPQRSTUVWXYZ'' ''abcdefghijklmnopqrstuvwxyz'') c of
        Some d \<Rightarrow> d
      | None \<Rightarrow> c)"

definition upper_char :: "char \<Rightarrow> char" where
  "upper_char c =
     (case map_of (zip ''abcdefghijklmnopqrstuvwxyz'' ''ABCDEFGHIJKLMNOPQRSTUVWXYZ'') c of
        Some d \<Rightarrow> d
      | None \<Rightarrow> c)"

definition is_letter :: "char \<Rightarrow> bool" where
  "is_letter c \<longleftrightarrow>
     c \<in> set ''ABCDEFGHIJKLMNOPQRSTUVWXYZabcdefghijklmnopqrstuvwxyz''"

text \<open>\<open>s.lower()\<close>\<close>

definition lower :: "string \<Rightarrow> string" where
  "lower s = map lower_char s"

text \<open>\<open>needle in hay\<close> on strings: some suffix of \<open>hay\<close> starts with \<open>needle\<close>.\<close>

fun starts_with :: "string \<Rightarrow> string \<Rightarrow> bool" where
  "starts_with [] hay = True"
| "starts_with (n # ns) [] = False"
| "starts_with (n # ns) (h # hs) = (n = h \<and> starts_with ns hs)"

fun str_in :: "string \<Rightarrow> string \<Rightarrow> bool" where
  "str_in needle [] = starts_with needle []"
| "str_in needle (h # hs) = (starts_with needle (h # hs) \<or> str_in needle hs)"

text \<open>\<open>sep.join(parts)\<close>\<close>

fun join :: "string \<Rightarrow> string list \<Rightarrow> string" where
  "join sep [] = []"
| "join sep [p] = p"
| "join sep (p # q # ps) = p @ sep @ join sep (q # ps)"

text \<open>\<open>str(n)\<close> for an integer.\<close>

fun str_nat :: "nat \<Rightarrow> string" where
  "str_nat n =
     (if n < 10 then [''0123456789'' ! n]
      else str_nat (n div 10) @ [''0123456789'' ! (n mod 10)])"

declare str_nat.simps [simp del]

definition str_int :: "int \<Rightarrow> string" where
  "str_int i = (if i < 0 then CHR ''-'' # str_nat (nat (- i)) else str_nat (nat i))"

text \<open>
  \<open>s.title()\<close> on ASCII: a letter that follows a letter is lower-cased, any other letter
  is upper-cased, and every other character is kept. The flag says whether the previous
  character was a letter.
\<close>

fun title_from :: "bool \<Rightarrow> string \<Rightarrow> string" where
  "title_from prev [] = []"
| "title_from prev (c # cs) =
     (if is_letter c then (if prev then lower_char c else upper_char c) # title_from True cs
      else c # title_from False cs)"

definition title :: "string \<Rightarrow> string" where
  "title s = title_from False s"

text \<open>\<open>s.replace(a, b)\<close> for single characters.\<close>

definition replace_char :: "char \<Rightarrow> char \<Rightarrow> string \<Rightarrow> string" where
  "replace_char a b s = map (\<lambda>c. if c = a then b else c) s"

section \<open>The report document\<close>

text \<open>
  A JSON object whose keys the scripts read is a record; a key that may be missing is an
  \<open>option\<close> field (\<open>None\<close>: the key is absent). For \<open>errorMessage\<close> and
  \<open>errorType\<close> the enhancer tells a missing key from a JSON \<open>null\<close>, so these two
  fields have three values. Each field has the JSON type the scripts expect of it
  (text, integer, list); a document with a value of another type is outside the model.
\<close>

datatype 'a field = Absent | Null | Val 'a

text \<open>\<open>d.get(key, default)\<close>: the result is a Python value, \<open>None\<close> for \<open>null\<close>.\<close>

fun get_default :: "'a field \<Rightarrow> 'a \<Rightarrow> 'a option" where
  "get_default Absent d = Some d"
| "get_default Null d = None"
| "get_default (Val v) d = Some v"

text \<open>\<open>d.get(key) or ''\<close>\<close>

fun get_or_empty :: "string field \<Rightarrow> string" where
  "get_or_empty Absent = []"
| "get_or_empty Null = []"
| "get_or_empty (Val v) = v"

text \<open>\<open>d.get(key, [])\<close> and \<open>d.get(key, 0)\<close> on an optional key.\<close>

definition get_list :: "'a list option \<Rightarrow> 'a list" where
  "get_list xs = (case xs of None \<Rightarrow> [] | Some ys \<Rightarrow> ys)"

definition get_int :: "int option \<Rightarrow> int" where
  "get_int x = (case x of None \<Rightarrow> 0 | Some n \<Rightarrow> n)"

definition get_str :: "string option \<Rightarrow> string \<Rightarrow> string" where
  "get_str x d = (case x of None \<Rightarrow> d | Some s \<Rightarrow> s)"

record step =
  step_keyword :: "string option"
  step_text :: "string option"
  step_status :: "string option"
  step_errorMessage :: "string option"

record failure =
  scenarioName :: "string option"
  line :: "int option"
  errorType :: "string field"
  errorMessage :: "string field"
  stackTrace :: "string option"
  steps :: "step list option"
  tags :: "string list option"
  duration :: "int option"

record feature =
  featureName :: "string option"
  failures :: "failure list option"

record metadata =
  buildNumber :: "string option"
  environment :: "string option"
  meta_duration :: "int option"

record summary =
  totalScenarios :: "int option"
  passedScenarios :: "int option"
  failedScenarios :: "int option"
  skippedScenarios :: "int option"

record enhancement_info =
  enhancedAt :: string
  version :: string

record failure_info =
  fi_feature :: string
  fi_scenario :: string
  fi_line :: int
  fi_error :: "string option"

record occurrence =
  oc_feature :: string
  oc_scenario :: string
  oc_message :: "string option"

record insight =
  insight_type :: "string option"
  severity :: "string option"
  message :: "string option"
  recommendation :: "string option"

record retry_candidate =
  rc_feature :: string
  rc_scenario :: string
  rc_line :: int
  rc_tags :: "string list"
  shouldRetry :: bool
  reason :: string

record artifacts =
  screenshotsAvailable :: bool
  serenityReportPath :: string
  artifacts_note :: string

text \<open>
  Python dictionaries keep insertion order, and the order shows in the output, so the
  derived dictionaries are association lists.
\<close>

type_synonym patterns = "(string \<times> failure_info list) list"

record report =
  metadata :: "metadata option"
  summary :: "summary option"
  features :: "feature list option"
  enhancement :: "enhancement_info option"
  failurePatterns :: "patterns option"
  failurePatternSummary :: "(string \<times> int) list option"
  errorCategories :: "(string option \<times> occurrence list) list option"
  errorCategorySummary :: "(string option \<times> int) list option"
  actionableInsights :: "insight list option"
  retrySuggestions :: "retry_candidate list option"
  serenityArtifacts :: "artifacts option"

text \<open>Subscripting a dictionary with a missing key raises \<open>KeyError\<close>.\<close>

datatype error = KeyError string

definition subscript :: "'a option \<Rightarrow> string \<Rightarrow> error + 'a" where
  "subscript x key = (case x of None \<Rightarrow> Inl (KeyError key) | Some v \<Rightarrow> Inr v)"

definition bind_err :: "error + 'a \<Rightarrow> ('a \<Rightarrow> error + 'b) \<Rightarrow> error + 'b" where
  "bind_err m k = (case m of Inl e \<Rightarrow> Inl e | Inr v \<Rightarrow> k v)"

section \<open>The enhancer: failure patterns\<close>

text \<open>The \<open>if\<close>/\<open>elif\<close> chain of \<open>_add_failure_patterns\<close>: the key the failure is appended under.\<close>

definition pattern_category :: "failure \<Rightarrow> string" where
  "pattern_category failure =
     (let error_msg = lower (get_or_empty (errorMessage failure));
          error_type = lower (get_or_empty (errorType failure))
      in if str_in ''timeout'' error_msg \<or> str_in ''timeout'' error_type
           then ''timeout_failures''
         else if str_in ''assertion'' error_msg \<or> str_in ''expected'' error_msg
           then ''assertion_failures''
         else if str_in ''connection'' error_msg \<or> str_in ''unable to connect'' error_msg
           then ''connection_failures''
         else if str_in ''auth'' error_msg \<or> str_in ''unauthorized'' error_msg
                 \<or> str_in ''401'' error_msg
           then ''authentication_failures''
         else if str_in ''validation'' error_msg \<or> str_in ''invalid'' error_msg
           then ''data_validation_failures''
         else if str_in ''nullpointer'' error_type \<or> str_in ''null'' error_msg
           then ''null_pointer_failures''
         else ''other_failures'')"

text \<open>The \<open>failure_info\<close> dictionary; its three subscripts are evaluated in this order.\<close>

definition failure_info_of :: "feature \<Rightarrow> failure \<Rightarrow> error + failure_info" where
  "failure_info_of feature failure =
     bind_err (subscript (featureName feature) ''featureName'') (\<lambda>fname.
     bind_err (subscript (scenarioName failure) ''scenarioName'') (\<lambda>sname.
     bind_err (subscript (line failure) ''line'') (\<lambda>ln.
       Inr \<lparr>fi_feature = fname, fi_scenario = sname, fi_line = ln,
            fi_error = get_default (errorMessage failure) ''Unknown error''\<rparr>)))"

text \<open>\<open>patterns[key].append(info)\<close>\<close>

definition append_under :: "string \<Rightarrow> 'v \<Rightarrow> (string \<times> 'v list) list \<Rightarrow> (string \<times> 'v list) list" where
  "append_under key v ps = map (\<lambda>(k, vs). if k = key then (k, vs @ [v]) else (k, vs)) ps"

definition initial_patterns :: patterns where
  "initial_patterns =
     [(''timeout_failures'', []), (''assertion_failures'', []), (''connection_failures'', []),
      (''authentication_failures'', []), (''data_validation_failures'', []),
      (''null_pointer_failures'', []), (''other_failures'', [])]"

text \<open>The inner and the outer loop, with the dictionary \<open>patterns\<close> as the state.\<close>

fun patterns_of_failures :: "feature \<Rightarrow> failure list \<Rightarrow> patterns \<Rightarrow> error + patterns" where
  "patterns_of_failures feature [] ps = Inr ps"
| "patterns_of_failures feature (failure # rest) ps =
     bind_err (failure_info_of feature failure) (\<lambda>info.
       patterns_of_failures feature rest (append_under (pattern_category failure) info ps))"

fun patterns_of_features :: "feature list \<Rightarrow> patterns \<Rightarrow> error + patterns" where
  "patterns_of_features [] ps = Inr ps"
| "patterns_of_features (feature # rest) ps =
     bind_err (patterns_of_failures feature (get_list (failures feature)) ps)
       (patterns_of_features rest)"

definition add_failure_patterns :: "report \<Rightarrow> error + report" where
  "add_failure_patterns report =
     bind_err (patterns_of_features (get_list (features report)) initial_patterns) (\<lambda>ps.
       let patterns = filter (\<lambda>(k, v). v \<noteq> []) ps
       in Inr (report\<lparr>failurePatterns := Some patterns,
                      failurePatternSummary :=
                        Some (map (\<lambda>(category, fs). (category, int (length fs))) patterns)\<rparr>))"

section \<open>The enhancer: error categories\<close>

text \<open>
  \<open>error_categories[error_type].append(entry)\<close> on a \<open>defaultdict(list)\<close>: a new key goes
  to the end. The key is \<open>None\<close> when \<open>errorType\<close> is \<open>null\<close>.
\<close>

fun append_grouped :: "'k \<Rightarrow> 'v \<Rightarrow> ('k \<times> 'v list) list \<Rightarrow> ('k \<times> 'v list) list" where
  "append_grouped key v [] = [(key, [v])]"
| "append_grouped key v ((k, vs) # rest) =
     (if k = key then (k, vs @ [v]) # rest else (k, vs) # append_grouped key v rest)"

definition occurrence_of :: "feature \<Rightarrow> failure \<Rightarrow> error + occurrence" where
  "occurrence_of feature failure =
     bind_err (subscript (featureName feature) ''featureName'') (\<lambda>fname.
     bind_err (subscript (scenarioName failure) ''scenarioName'') (\<lambda>sname.
       Inr \<lparr>oc_feature = fname, oc_scenario = sname,
            oc_message = get_default (errorMessage failure) []\<rparr>))"

fun categories_of_failures ::
  "feature \<Rightarrow> failure list \<Rightarrow> (string option \<times> occurrence list) list
     \<Rightarrow> error + (string option \<times> occurrence list) list" where
  "categories_of_failures feature [] cs = Inr cs"
| "categories_of_failures feature (failure # rest) cs =
     (let error_type = get_default (errorType failure) ''UnknownError''
      in bind_err (occurrence_of feature failure) (\<lambda>entry.
           categories_of_failures feature rest (append_grouped error_type entry cs)))"

fun categories_of_features ::
  "feature list \<Rightarrow> (string option \<times> occurrence list) list
     \<Rightarrow> error + (string option \<times> occurrence list) list" where
  "categories_of_features [] cs = Inr cs"
| "categories_of_features (feature # rest) cs =
     bind_err (categories_of_failures feature (get_list (failures feature)) cs)
       (categories_of_features rest)"

definition categorize_errors :: "report \<Rightarrow> error + report" where
  "categorize_errors report =
     bind_err (categories_of_features (get_list (features report)) []) (\<lambda>error_categories.
       Inr (report\<lparr>errorCategories := Some error_categories,
                      errorCategorySummary :=
                        Some (map (\<lambda>(error_type, occurrences).
                                     (error_type, int (length occurrences))) error_categories)\<rparr>))"

section \<open>The enhancer: actionable insights\<close>

text \<open>\<open>patterns.get(key, 0)\<close> on the summary dictionary.\<close>

definition count_of :: "(string \<times> int) list \<Rightarrow> string \<Rightarrow> int" where
  "count_of patterns key = (case map_of patterns key of None \<Rightarrow> 0 | Some n \<Rightarrow> n)"

definition mk_insight :: "string \<Rightarrow> string \<Rightarrow> string \<Rightarrow> string \<Rightarrow> insight" where
  "mk_insight t s m r =
     \<lparr>insight_type = Some t, severity = Some s, message = Some m, recommendation = Some r\<rparr>"

text \<open>
  Python floats. A float is modelled by the rational number it stands for. The
  interpreter's float arithmetic is a parameter: \<open>rnd\<close> rounds the exact result of an
  operation to the float that the operation returns, and \<open>fmt1\<close> is the text
  \<open>f'{x:.1f}'\<close> of a float.
\<close>

record pyfloat =
  rnd :: "rat \<Rightarrow> rat"
  fmt1 :: "rat \<Rightarrow> string"

text \<open>\<open>(failed_count / total) * 100\<close>: a true division, then a float product.\<close>

definition failure_rate_of :: "pyfloat \<Rightarrow> int \<Rightarrow> int \<Rightarrow> rat" where
  "failure_rate_of fp failed_count total_n =
     rnd fp (rnd fp (of_int failed_count / of_int total_n) * 100)"

definition rate_message :: "pyfloat \<Rightarrow> rat \<Rightarrow> int \<Rightarrow> int \<Rightarrow> string" where
  "rate_message fp failure_rate failed_count total_n =
     fmt1 fp failure_rate @ ''% of tests failed ('' @ str_int failed_count @ ''/''
       @ str_int total_n @ '')''"

text \<open>
  The list \<open>insights\<close> of \<open>_add_actionable_insights\<close> when the function stores it in the
  report.
\<close>

definition actionable_insights :: "pyfloat \<Rightarrow> report \<Rightarrow> insight list" where
  "actionable_insights fp report =
     (let insights = [];
          failed_count =
            (case summary report of None \<Rightarrow> 0 | Some s \<Rightarrow> get_int (failedScenarios s));
          insights =
            (if failed_count = 0 then
               insights @ [mk_insight ''SUCCESS'' ''INFO''
                 ''All tests passed successfully. No action required.''
                 ''Monitor for consistency in future runs.'']
             else
               let total_n =
                     (case summary report of None \<Rightarrow> 0 | Some s \<Rightarrow> get_int (totalScenarios s));
                   insights =
                     (if total_n > 0 then
                        let failure_rate = failure_rate_of fp failed_count total_n
                        in if failure_rate > 50 then
                             insights @ [mk_insight ''HIGH_FAILURE_RATE'' ''CRITICAL''
                               (rate_message fp failure_rate failed_count total_n)
                               ''Investigate environment issues or recent code changes. This indicates systemic problems.'']
                           else if failure_rate > 20 then
                             insights @ [mk_insight ''MODERATE_FAILURE_RATE'' ''HIGH''
                               (rate_message fp failure_rate failed_count total_n)
                               ''Review failed scenarios for common patterns.'']
                           else insights
                      else insights);
                   patterns =
                     (case failurePatternSummary report of None \<Rightarrow> [] | Some ps \<Rightarrow> ps);
                   insights =
                     (if count_of patterns ''timeout_failures'' > 2 then
                        insights @ [mk_insight ''TIMEOUT_PATTERN'' ''HIGH''
                          (str_int (count_of patterns ''timeout_failures'')
                             @ '' timeout failures detected'')
                          ''Check application response times, database performance, or increase timeout thresholds.'']
                      else insights);
                   insights =
                     (if count_of patterns ''authentication_failures'' > 0 then
                        insights @ [mk_insight ''AUTH_PATTERN'' ''HIGH''
                          (str_int (count_of patterns ''authentication_failures'')
                             @ '' authentication failures detected'')
                          ''Verify test credentials and authentication endpoints are working correctly.'']
                      else insights);
                   insights =
                     (if count_of patterns ''connection_failures'' > 0 then
                        insights @ [mk_insight ''CONNECTION_PATTERN'' ''CRITICAL''
                          (str_int (count_of patterns ''connection_failures'')
                             @ '' connection failures detected'')
                          ''Check network connectivity, service availability, and firewall rules.'']
                      else insights);
                   insights =
                     (if count_of patterns ''null_pointer_failures'' > 0 then
                        insights @ [mk_insight ''NPE_PATTERN'' ''MEDIUM''
                          (str_int (count_of patterns ''null_pointer_failures'')
                             @ '' null pointer exceptions detected'')
                          ''Review test data setup and null handling in step definitions.'']
                      else insights)
               in insights)
      in insights)"

definition add_actionable_insights :: "pyfloat \<Rightarrow> report \<Rightarrow> report" where
  "add_actionable_insights fp report =
     report\<lparr>actionableInsights := Some (actionable_insights fp report)\<rparr>"

section \<open>The enhancer: retry suggestions\<close>

definition transient_keywords :: "string list" where
  "transient_keywords =
     [''timeout'', ''connection'', ''temporarily unavailable'', ''service unavailable'',
      ''network'', ''503'', ''504'']"

text \<open>\<open>any(keyword in error_msg for keyword in [...])\<close>\<close>

definition is_transient :: "failure \<Rightarrow> bool" where
  "is_transient failure =
     (let error_msg = lower (get_or_empty (errorMessage failure))
      in list_ex (\<lambda>keyword. str_in keyword error_msg) transient_keywords)"

definition retry_candidate_of :: "feature \<Rightarrow> failure \<Rightarrow> error + retry_candidate" where
  "retry_candidate_of feature failure =
     bind_err (subscript (featureName feature) ''featureName'') (\<lambda>fname.
     bind_err (subscript (scenarioName failure) ''scenarioName'') (\<lambda>sname.
     bind_err (subscript (line failure) ''line'') (\<lambda>ln.
       Inr \<lparr>rc_feature = fname, rc_scenario = sname, rc_line = ln,
            rc_tags = get_list (tags failure),
            shouldRetry = is_transient failure,
            reason = (if is_transient failure then ''Transient failure detected''
                      else ''Deterministic failure - requires fix'')\<rparr>)))"

fun retries_of_failures ::
  "feature \<Rightarrow> failure list \<Rightarrow> retry_candidate list \<Rightarrow> error + retry_candidate list" where
  "retries_of_failures feature [] rs = Inr rs"
| "retries_of_failures feature (failure # rest) rs =
     bind_err (retry_candidate_of feature failure) (\<lambda>c.
       retries_of_failures feature rest (rs @ [c]))"

fun retries_of_features :: "feature list \<Rightarrow> retry_candidate list \<Rightarrow> error + retry_candidate list" where
  "retries_of_features [] rs = Inr rs"
| "retries_of_features (feature # rest) rs =
     bind_err (retries_of_failures feature (get_list (failures feature)) rs)
       (retries_of_features rest)"

definition add_retry_suggestions :: "report \<Rightarrow> error + report" where
  "add_retry_suggestions report =
     bind_err (retries_of_features (get_list (features report)) []) (\<lambda>retry_candidates.
       Inr (report\<lparr>retrySuggestions := Some retry_candidates\<rparr>))"

section \<open>The enhancer: the whole run\<close>

definition link_serenity_artifacts :: "string \<Rightarrow> report \<Rightarrow> report" where
  "link_serenity_artifacts serenity_report_path report =
     report\<lparr>serenityArtifacts :=
       Some \<lparr>screenshotsAvailable = True, serenityReportPath = serenity_report_path,
             artifacts_note = ''Screenshot linking requires Serenity JSON parsing''\<rparr>\<rparr>"

text \<open>
  What \<open>enhance\<close> reads besides the report: the clock (\<open>utcnow\<close>, the text of
  \<open>datetime.utcnow().isoformat()\<close>), the path of the Serenity report given on the command
  line (\<open>None\<close> when the flag is missing) and the file system (\<open>path_exists\<close>). The
  argument \<open>report\<close> is the document that \<open>json.load\<close> returns, the result is the
  document that is written and returned.
\<close>

definition enhance ::
  "pyfloat \<Rightarrow> string \<Rightarrow> (string \<Rightarrow> bool) \<Rightarrow> string option \<Rightarrow> report \<Rightarrow> error + report" where
  "enhance fp utcnow path_exists serenity_report_path report =
     (let report = report\<lparr>enhancement := Some \<lparr>enhancedAt = utcnow, version = ''1.0.0''\<rparr>\<rparr>
      in bind_err (add_failure_patterns report) (\<lambda>report.
         bind_err (categorize_errors report) (\<lambda>report.
         let report = add_actionable_insights fp report
         in bind_err (add_retry_suggestions report) (\<lambda>report.
              Inr (case serenity_report_path of
                     None \<Rightarrow> report
                   | Some path \<Rightarrow>
                       if path \<noteq> [] \<and> path_exists path
                       then link_serenity_artifacts path report
                       else report)))))"

section \<open>The renderer\<close>

text \<open>
  \<open>format_duration\<close>. The argument is the value of \<open>d.get('duration')\<close>: \<open>None\<close> when
  the key is missing. The three divisions are float divisions.
\<close>

definition format_duration :: "pyfloat \<Rightarrow> int option \<Rightarrow> string" where
  "format_duration fp ms =
     (case ms of
        None \<Rightarrow> ''N/A''
      | Some m \<Rightarrow>
          if m = 0 then ''N/A''
          else
            let seconds = rnd fp (of_int m / 1000)
            in if seconds < 60 then fmt1 fp seconds @ ''s''
               else
                 let minutes = rnd fp (seconds / 60)
                 in if minutes < 60 then fmt1 fp minutes @ ''m''
                    else
                      let hours = rnd fp (minutes / 60)
                      in fmt1 fp hours @ ''h'')"

definition insight_block :: "insight \<Rightarrow> string" where
  "insight_block insight =
     (let severity_l = lower (get_str (severity insight) ''INFO'')
      in ''\<newline>''
         @ ''        <div class=\"insight ''
         @ severity_l
         @ ''\">\<newline>''
         @ ''            <div class=\"insight-header\">\<newline>''
         @ ''                <span class=\"insight-type\">''
         @ get_str (insight_type insight) ''Unknown''
         @ ''</span>\<newline>''
         @ ''                <span class=\"insight-severity ''
         @ severity_l
         @ ''\">''
         @ get_str (severity insight) ''INFO''
         @ ''</span>\<newline>''
         @ ''            </div>\<newline>''
         @ ''            <div>''
         @ get_str (message insight) []
         @ ''</div>\<newline>''
         @ ''            <div style=\"margin-top: 8px; font-size: 13px; opacity: 0.8;\">\<newline>''
         @ ''                <strong>Recommendation:</strong> ''
         @ get_str (recommendation insight) []
         @ ''\<newline>''
         @ ''            </div>\<newline>''
         @ ''        </div>\<newline>''
         @ ''        '')"

definition generate_insights_section :: "report \<Rightarrow> string" where
  "generate_insights_section report =
     (let insights = get_list (actionableInsights report)
      in if insights = [] then []
         else join ''\<newline>''
                ([''<div class=\"insights\">'',
                  ''<h2>'' @ [CHR 0xF0, CHR 0x9F, CHR 0x93, CHR 0x8A] @ '' Actionable Insights</h2>'']
                 @ map insight_block insights
                 @ [''</div>'']))"

definition pattern_labels :: "(string \<times> string) list" where
  "pattern_labels =
     [(''timeout_failures'', ''Timeout Failures''),
      (''assertion_failures'', ''Assertion Failures''),
      (''connection_failures'', ''Connection Failures''),
      (''authentication_failures'', ''Authentication Failures''),
      (''data_validation_failures'', ''Data Validation Failures''),
      (''null_pointer_failures'', ''Null Pointer Failures''),
      (''other_failures'', ''Other Failures'')]"

definition pattern_card :: "string \<times> int \<Rightarrow> string" where
  "pattern_card entry =
     (let pattern_key = fst entry;
          count = snd entry;
          label = (case map_of pattern_labels pattern_key of
                     Some l \<Rightarrow> l
                   | None \<Rightarrow> title (replace_char (CHR ''_'') (CHR '' '') pattern_key))
      in ''\<newline>''
         @ ''        <div class=\"pattern-card\">\<newline>''
         @ ''            <h4>''
         @ label
         @ ''</h4>\<newline>''
         @ ''            <div class=\"pattern-count\">''
         @ str_int count
         @ ''</div>\<newline>''
         @ ''        </div>\<newline>''
         @ ''        '')"

definition generate_patterns_section :: "report \<Rightarrow> string" where
  "generate_patterns_section report =
     (let patterns = (case failurePatternSummary report of None \<Rightarrow> [] | Some ps \<Rightarrow> ps)
      in if patterns = [] then []
         else join ''\<newline>''
                ([''<div class=\"patterns\">'',
                  ''<h2>'' @ [CHR 0xF0, CHR 0x9F, CHR 0x8E, CHR 0xAF] @ '' Failure Patterns</h2>'',
                  ''<div class=\"pattern-grid\">'']
                 @ map pattern_card patterns
                 @ [''</div></div>'']))"

definition tag_span :: "string \<Rightarrow> string" where
  "tag_span tag = ''<span class=\"tag\">''
         @ tag
         @ ''</span>''"

definition failure_header :: "pyfloat \<Rightarrow> feature \<Rightarrow> failure \<Rightarrow> string \<Rightarrow> string" where
  "failure_header fp feature failure tags_html =
     (''\<newline>''
         @ ''            <div class=\"failure-item\">\<newline>''
         @ ''                <div class=\"failure-header\">\<newline>''
         @ ''                    <div>\<newline>''
         @ ''                        <div class=\"failure-title\">''
         @ get_str (scenarioName failure) ''Unknown Scenario''
         @ ''</div>\<newline>''
         @ ''                        <div class=\"failure-meta\">\<newline>''
         @ ''                            <span>''
         @ [CHR 0xF0, CHR 0x9F, CHR 0x93, CHR 0x81]
         @ '' ''
         @ get_str (featureName feature) ''Unknown Feature''
         @ ''</span>\<newline>''
         @ ''                            <span>''
         @ [CHR 0xF0, CHR 0x9F, CHR 0x93, CHR 0x8D]
         @ '' Line ''
         @ (case line failure of None \<Rightarrow> ''N/A'' | Some n \<Rightarrow> str_int n)
         @ ''</span>\<newline>''
         @ ''                            <span>''
         @ [CHR 0xE2, CHR 0x8F, CHR 0xB1]
         @ [CHR 0xEF, CHR 0xB8, CHR 0x8F]
         @ '' ''
         @ format_duration fp (duration failure)
         @ ''</span>\<newline>''
         @ ''                        </div>\<newline>''
         @ ''                        <div style=\"margin-top: 5px;\">''
         @ tags_html
         @ ''</div>\<newline>''
         @ ''                    </div>\<newline>''
         @ ''                    <span class=\"toggle-icon\">''
         @ [CHR 0xE2, CHR 0x96, CHR 0xBC]
         @ ''</span>\<newline>''
         @ ''                </div>\<newline>''
         @ ''                <div class=\"failure-details\">\<newline>''
         @ ''            '')"

definition error_block :: "string \<Rightarrow> string" where
  "error_block msg =
     (''\<newline>''
         @ ''                    <div class=\"error-message\">\<newline>''
         @ ''                        ''
         @ [CHR 0xE2, CHR 0x9D, CHR 0x8C]
         @ '' ''
         @ msg
         @ ''\<newline>''
         @ ''                    </div>\<newline>''
         @ ''                '')"

definition step_error :: "step \<Rightarrow> string" where
  "step_error step =
     (case step_errorMessage step of
        None \<Rightarrow> []
      | Some msg \<Rightarrow>
          if msg = [] then []
          else ''<div style=\"margin-top: 5px; color: #dc2626; font-size: 12px;\">Error: ''
             @ msg
             @ ''</div>'')"

definition step_block :: "step \<Rightarrow> string" where
  "step_block step =
     (let status_l = lower (get_str (step_status step) ''UNKNOWN'')
      in ''\<newline>''
         @ ''                    <div class=\"step ''
         @ status_l
         @ ''\">\<newline>''
         @ ''                        <span class=\"step-keyword\">''
         @ get_str (step_keyword step) []
         @ ''</span>\<newline>''
         @ ''                        <span>''
         @ get_str (step_text step) []
         @ ''</span>\<newline>''
         @ ''                        ''
         @ step_error step
         @ ''\<newline>''
         @ ''                    </div>\<newline>''
         @ ''                    '')"

definition stack_block :: "string \<Rightarrow> string" where
  "stack_block trace =
     (''\<newline>''
         @ ''                    <div class=\"stacktrace\">''
         @ trace
         @ ''</div>\<newline>''
         @ ''                '')"

text \<open>The body of the inner loop of \<open>generate_failures_section\<close>: the text of one failure.\<close>

definition failure_block :: "pyfloat \<Rightarrow> feature \<Rightarrow> failure \<Rightarrow> string" where
  "failure_block fp feature failure =
     (let tags_html = concat (map tag_span (get_list (tags failure)));
          failure_html = failure_header fp feature failure tags_html;
          failure_html =
            (case errorMessage failure of
               Val msg \<Rightarrow> if msg \<noteq> [] then failure_html @ error_block msg else failure_html
             | _ \<Rightarrow> failure_html);
          step_list = get_list (steps failure);
          failure_html =
            (if step_list \<noteq> []
             then failure_html @ ''<div class=\"steps\"><h4>Test Steps:</h4>''
                    @ concat (map step_block step_list) @ ''</div>''
             else failure_html);
          failure_html =
            (case stackTrace failure of
               Some trace \<Rightarrow> if trace \<noteq> [] then failure_html @ stack_block trace else failure_html
             | None \<Rightarrow> failure_html)
      in failure_html @ ''</div></div>'')"

text \<open>The two loops, with \<open>failures_html\<close> and \<open>failure_count\<close> as the state.\<close>

fun render_failures ::
  "pyfloat \<Rightarrow> feature \<Rightarrow> failure list \<Rightarrow> string list \<times> nat \<Rightarrow> string list \<times> nat" where
  "render_failures fp feature [] st = st"
| "render_failures fp feature (failure # rest) (failures_html, failure_count) =
     render_failures fp feature rest
       (failures_html @ [failure_block fp feature failure], failure_count + 1)"

fun render_features ::
  "pyfloat \<Rightarrow> feature list \<Rightarrow> string list \<times> nat \<Rightarrow> string list \<times> nat" where
  "render_features fp [] st = st"
| "render_features fp (feature # rest) st =
     render_features fp rest (render_failures fp feature (get_list (failures feature)) st)"

definition generate_failures_section :: "pyfloat \<Rightarrow> report \<Rightarrow> string" where
  "generate_failures_section fp report =
     (case render_features fp (get_list (features report)) ([], 0) of
        (failures_html, failure_count) \<Rightarrow>
          if failures_html = [] then []
          else ''<div class=\"failures\"><h2>'' @ [CHR 0xE2, CHR 0x9D, CHR 0x8C] @ '' Failed Scenarios ('' @ str_nat failure_count @ '')</h2>''
                 @ join ''\<newline>'' failures_html @ ''</div>'')"

text \<open>
  \<open>HTML_TEMPLATE.format(...)\<close>: the template is a sequence of literal text and named
  slots. The style sheet and the script of the template hold no slot; the functions
  below take the template as an argument, so what is proved of them holds for the
  template of the script.
\<close>

datatype slot =
    Slot_build_number | Slot_environment | Slot_duration | Slot_timestamp
  | Slot_total_scenarios | Slot_passed_scenarios | Slot_failed_scenarios
  | Slot_skipped_scenarios | Slot_insights_section | Slot_patterns_section
  | Slot_failures_section

datatype piece = Lit string | Slot slot

fun format_template :: "piece list \<Rightarrow> (slot \<Rightarrow> string) \<Rightarrow> string" where
  "format_template [] args = []"
| "format_template (Lit s # rest) args = s @ format_template rest args"
| "format_template (Slot k # rest) args = args k @ format_template rest args"

text \<open>
  The keyword arguments of the call. \<open>now\<close> is the clock: the text of
  \<open>datetime.now().strftime('%Y-%m-%d %H:%M:%S')\<close>.
\<close>

definition template_args :: "pyfloat \<Rightarrow> string \<Rightarrow> report \<Rightarrow> slot \<Rightarrow> string" where
  "template_args fp now report k =
     (let count = (\<lambda>sel. str_int (case summary report of None \<Rightarrow> 0 | Some s \<Rightarrow> get_int (sel s)))
      in case k of
           Slot_build_number \<Rightarrow>
             (case metadata report of None \<Rightarrow> ''Unknown'' | Some m \<Rightarrow> get_str (buildNumber m) ''Unknown'')
         | Slot_environment \<Rightarrow>
             (case metadata report of None \<Rightarrow> ''default'' | Some m \<Rightarrow> get_str (environment m) ''default'')
         | Slot_duration \<Rightarrow>
             format_duration fp (case metadata report of None \<Rightarrow> None | Some m \<Rightarrow> meta_duration m)
         | Slot_timestamp \<Rightarrow> now
         | Slot_total_scenarios \<Rightarrow> count totalScenarios
         | Slot_passed_scenarios \<Rightarrow> count passedScenarios
         | Slot_failed_scenarios \<Rightarrow> count failedScenarios
         | Slot_skipped_scenarios \<Rightarrow> count skippedScenarios
         | Slot_insights_section \<Rightarrow> generate_insights_section report
         | Slot_patterns_section \<Rightarrow> generate_patterns_section report
         | Slot_failures_section \<Rightarrow> generate_failures_section fp report)"

text \<open>The text that \<open>generate_html_report\<close> writes to the output file.\<close>

definition generate_html_report :: "piece list \<Rightarrow> pyfloat \<Rightarrow> string \<Rightarrow> report \<Rightarrow> string" where
  "generate_html_report html_template fp now report =
     format_template html_template (template_args fp now report)"

section \<open>Notions used to state the properties\<close>

text \<open>
  The failures of a report in traversal order: feature by feature, and within a feature
  in the order of its list. Each failure comes with its feature.
\<close>

definition all_failures :: "report \<Rightarrow> (feature \<times> failure) list" where
  "all_failures report =
     concat (map (\<lambda>feature. map (Pair feature) (get_list (failures feature)))
                 (get_list (features report)))"

text \<open>\<open>d.get(key, [])\<close> on a derived dictionary.\<close>

definition entries :: "'k \<Rightarrow> ('k \<times> 'v list) list \<Rightarrow> 'v list" where
  "entries key d = (case map_of d key of None \<Rightarrow> [] | Some vs \<Rightarrow> vs)"

definition pattern_categories :: "string list" where
  "pattern_categories =
     [''timeout_failures'', ''assertion_failures'', ''connection_failures'',
      ''authentication_failures'', ''data_validation_failures'', ''null_pointer_failures'',
      ''other_failures'']"

text \<open>
  The classifier as the specification words it: an ordered table of categories with
  their predicates on the lower-cased message and the lower-cased error type, of which
  the first that matches wins. The last row matches every failure.
\<close>

definition category_rules :: "(string \<times> (string \<Rightarrow> string \<Rightarrow> bool)) list" where
  "category_rules =
     [(''timeout_failures'', \<lambda>msg typ. str_in ''timeout'' msg \<or> str_in ''timeout'' typ),
      (''assertion_failures'', \<lambda>msg typ. str_in ''assertion'' msg \<or> str_in ''expected'' msg),
      (''connection_failures'',
         \<lambda>msg typ. str_in ''connection'' msg \<or> str_in ''unable to connect'' msg),
      (''authentication_failures'',
         \<lambda>msg typ. str_in ''auth'' msg \<or> str_in ''unauthorized'' msg \<or> str_in ''401'' msg),
      (''data_validation_failures'',
         \<lambda>msg typ. str_in ''validation'' msg \<or> str_in ''invalid'' msg),
      (''null_pointer_failures'', \<lambda>msg typ. str_in ''nullpointer'' typ \<or> str_in ''null'' msg),
      (''other_failures'', \<lambda>msg typ. True)]"

fun first_match :: "(string \<times> (string \<Rightarrow> string \<Rightarrow> bool)) list \<Rightarrow> string \<Rightarrow> string \<Rightarrow> string option" where
  "first_match [] msg typ = None"
| "first_match ((category, matches) # rules) msg typ =
     (if matches msg typ then Some category else first_match rules msg typ)"

text \<open>The insights of a list that have a given type.\<close>

definition of_type :: "string \<Rightarrow> insight list \<Rightarrow> insight list" where
  "of_type t insights = filter (\<lambda>i. insight_type i = Some t) insights"

text \<open>
  The parts of the text of one failure: the error message, the steps and the stack
  trace, each empty when the failure has none.
\<close>

definition error_html :: "failure \<Rightarrow> string" where
  "error_html failure =
     (case errorMessage failure of
        Val msg \<Rightarrow> if msg = [] then [] else error_block msg
      | _ \<Rightarrow> [])"

definition steps_html :: "failure \<Rightarrow> string" where
  "steps_html failure =
     (case steps failure of
        None \<Rightarrow> []
      | Some ss \<Rightarrow>
          if ss = [] then []
          else ''<div class=\"steps\"><h4>Test Steps:</h4>'' @ concat (map step_block ss)
                 @ ''</div>'')"

definition stack_html :: "failure \<Rightarrow> string" where
  "stack_html failure =
     (case stackTrace failure of
        None \<Rightarrow> []
      | Some trace \<Rightarrow> if trace = [] then [] else stack_block trace)"

section \<open>Example documents\<close>

text \<open>
  A float arithmetic for the examples: no rounding error, and one decimal digit cut off
  (not rounded) in the text.
\<close>

definition exact_float :: pyfloat where
  "exact_float =
     \<lparr>rnd = (\<lambda>x. x),
      fmt1 = (\<lambda>x. str_int \<lfloor>x\<rfloor> @ ''.'' @ str_int (\<lfloor>x * 10\<rfloor> mod 10))\<rparr>"

definition no_path :: "string \<Rightarrow> bool" where
  "no_path p = False"

definition failure_timeout :: failure where
  "failure_timeout =
     \<lparr>scenarioName = Some ''login'', line = Some 12,
      errorType = Val ''java.net.SocketTimeoutException'',
      errorMessage = Val ''Read TIMEOUT: invalid response'',
      stackTrace = None, steps = None, tags = None, duration = None\<rparr>"

definition failure_assert :: failure where
  "failure_assert =
     \<lparr>scenarioName = Some ''book'', line = Some 30, errorType = Null,
      errorMessage = Val ''Expected true but got false'',
      stackTrace = Some ''at Steps.java:41'',
      steps = Some [\<lparr>step_keyword = Some ''Given'', step_text = Some ''a booking'',
                     step_status = Some ''FAILED'', step_errorMessage = None\<rparr>],
      tags = Some [''@smoke''], duration = Some 0\<rparr>"

definition failure_conn :: failure where
  "failure_conn =
     \<lparr>scenarioName = Some ''ping'', line = Some 7, errorType = Absent,
      errorMessage = Val ''Connection timed out after 503'',
      stackTrace = None, steps = None, tags = None, duration = Some 1500\<rparr>"

definition summary_of :: "int \<Rightarrow> int \<Rightarrow> summary" where
  "summary_of total_n failed =
     \<lparr>totalScenarios = Some total_n, passedScenarios = Some (total_n - failed),
      failedScenarios = Some failed, skippedScenarios = Some 0\<rparr>"

definition empty_report :: report where
  "empty_report =
     \<lparr>metadata = None, summary = None, features = None, enhancement = None,
      failurePatterns = None, failurePatternSummary = None, errorCategories = None,
      errorCategorySummary = None, actionableInsights = None, retrySuggestions = None,
      serenityArtifacts = None\<rparr>"

definition example_report :: report where
  "example_report =
     empty_report
       \<lparr>summary := Some (summary_of 10 3),
        features :=
          Some [\<lparr>featureName = Some ''Auth'', failures = Some [failure_timeout, failure_assert]\<rparr>,
                \<lparr>featureName = Some ''Ping'', failures = Some [failure_conn]\<rparr>]\<rparr>"

text \<open>
  The failures of a list that the classifier puts in category \<open>c\<close>, each as the
  \<open>failure_info\<close> dictionary built for it (or the error that building it raises).
\<close>

definition classified_as :: "string \<Rightarrow> (feature \<times> failure) list \<Rightarrow> (error + failure_info) list" where
  "classified_as c pairs =
     map (\<lambda>(feature, failure). failure_info_of feature failure)
         (filter (\<lambda>(feature, failure). pattern_category failure = c) pairs)"

definition example_summary_report :: report where
  "example_summary_report =
     example_report
       \<lparr>failurePatternSummary := Some [(''timeout_failures'', 3), (''connection_failures'', 1)]\<rparr>"

section \<open>Insights for a run without failures\<close>

text \<open>
  C3. When the summary of the report records 0 failed scenarios (also when the count or
  the whole summary is missing, which the code reads as 0), the list of actionable
  insights that the enhancer stores has exactly one element: the insight of type
  SUCCESS with severity INFO. The list holds no insight of another type.
\<close>

theorem C3_zero_failures:
  assumes "(case summary report of None \<Rightarrow> 0 | Some s \<Rightarrow> get_int (failedScenarios s)) = 0"
  shows "\<exists>i. actionableInsights (add_actionable_insights fp report) = Some [i]
             \<and> insight_type i = Some ''SUCCESS'' \<and> severity i = Some ''INFO''
             \<and> message i = Some ''All tests passed successfully. No action required.''
             \<and> recommendation i = Some ''Monitor for consistency in future runs.''"
  using assms by (simp add: add_actionable_insights_def actionable_insights_def mk_insight_def)

theorem C3_zero_failures_witness:
  "(case summary (example_report\<lparr>summary := Some (summary_of 10 0)\<rparr>) of
      None \<Rightarrow> 0 | Some s \<Rightarrow> get_int (failedScenarios s)) = 0
   \<and> (\<exists>i. actionableInsights (add_actionable_insights exact_float
               (example_report\<lparr>summary := Some (summary_of 10 0)\<rparr>)) = Some [i]
          \<and> insight_type i = Some ''SUCCESS'' \<and> severity i = Some ''INFO''
          \<and> message i = Some ''All tests passed successfully. No action required.''
          \<and> recommendation i = Some ''Monitor for consistency in future runs.'')"
proof -
  have h: "(case summary (example_report\<lparr>summary := Some (summary_of 10 0)\<rparr>) of
      None \<Rightarrow> 0 | Some s \<Rightarrow> get_int (failedScenarios s)) = 0"
    by (simp add: summary_of_def get_int_def)
  from C3_zero_failures [OF h, of exact_float] h show ?thesis by blast
qed

section \<open>Durations\<close>



end
